theory Spec2Isabelle
  imports Complex_Main
begin

section \<open>The instrumented sample application (sample-app/app.py)\<close>

text \<open>
  The service keeps six module-level instruments and updates them from two request hooks
  and five view functions. The embedding passes the instruments around as one record,
  returns the updated record from every operation, and takes everything the code reads
  from outside (the random generator, the host statistics, the clock, the exposition
  serialiser) as explicit inputs. Python floats are modelled as reals.
\<close>

subsection \<open>Instruments\<close>

text \<open>
  A labelled Counter is a map from its label values to the count of that series; a series
  that was never touched is absent. The Histogram series keeps the observations it has
  received, in order (count, sum and bucket counts are functions of that list). A Gauge
  without labels is a single number.
\<close>

type_synonym request_labels = "string \<times> string \<times> int"

record registry =
  REQUEST_COUNT :: "request_labels \<rightharpoonup> nat"
  REQUEST_LATENCY :: "string \<rightharpoonup> real list"
  ACTIVE_USERS :: real
  SYSTEM_CPU :: real
  SYSTEM_MEMORY :: real
  ERROR_COUNT :: "string \<rightharpoonup> nat"

definition counter_value :: "('k \<rightharpoonup> nat) \<Rightarrow> 'k \<Rightarrow> nat" where
  "counter_value c k = (case c k of None \<Rightarrow> 0 | Some n \<Rightarrow> n)"

text \<open>\<^verbatim>\<open>counter.labels(...).inc()\<close>: the series is created at 0 if unseen, then 1 is added.\<close>

definition inc :: "('k \<rightharpoonup> nat) \<Rightarrow> 'k \<Rightarrow> ('k \<rightharpoonup> nat)" where
  "inc c k = c(k \<mapsto> counter_value c k + 1)"

definition observations :: "('k \<rightharpoonup> real list) \<Rightarrow> 'k \<Rightarrow> real list" where
  "observations h k = (case h k of None \<Rightarrow> [] | Some vs \<Rightarrow> vs)"

text \<open>\<^verbatim>\<open>histogram.labels(...).observe(v)\<close>.\<close>

definition observe :: "('k \<rightharpoonup> real list) \<Rightarrow> 'k \<Rightarrow> real \<Rightarrow> ('k \<rightharpoonup> real list)" where
  "observe h k v = h(k \<mapsto> observations h k @ [v])"

definition empty_registry :: registry where
  "empty_registry =
     \<lparr>REQUEST_COUNT = Map.empty, REQUEST_LATENCY = Map.empty, ACTIVE_USERS = 0,
      SYSTEM_CPU = 0, SYSTEM_MEMORY = 0, ERROR_COUNT = Map.empty\<rparr>"

subsection \<open>Requests, responses and JSON payloads\<close>

datatype json =
    JString string
  | JInt int
  | JFloat real
  | JArray "json list"
  | JObject "(string \<times> json) list"

type_synonym dict = "(string \<times> json) list"

datatype mimetype = ApplicationJson | ContentTypeLatest | TextHtml

datatype body = Json dict | Text string

record response =
  status_code :: int
  mimetype :: mimetype
  body :: body

text \<open>\<^verbatim>\<open>jsonify(d)\<close> is a 200 response; \<^verbatim>\<open>return jsonify(d), code\<close> overrides the status.\<close>

definition jsonify :: "dict \<Rightarrow> response" where
  "jsonify d = \<lparr>status_code = 200, mimetype = ApplicationJson, body = Json d\<rparr>"

definition with_status :: "response \<Rightarrow> int \<Rightarrow> response" where
  "with_status r code = r\<lparr>status_code := code\<rparr>"

text \<open>
  What the hooks read of the request: \<^verbatim>\<open>flask.request.method\<close> and the endpoint identifier
  \<^verbatim>\<open>flask.request.endpoint\<close>, which the dispatcher leaves at \<^verbatim>\<open>None\<close> when no route matched.
\<close>

record request =
  request_method :: string
  endpoint :: "string option"

text \<open>The per-request context \<^verbatim>\<open>flask.g\<close>.\<close>

record g =
  start_time :: real

datatype exception = Exception string

fun str :: "exception \<Rightarrow> string" where
  "str (Exception msg) = msg"

subsection \<open>The request hooks\<close>

text \<open>\<^verbatim>\<open>before_request\<close> stores the reading of \<^verbatim>\<open>time.time()\<close> it is given.\<close>

definition before_request :: "real \<Rightarrow> g" where
  "before_request now = \<lparr>start_time = now\<rparr>"

text \<open>\<^verbatim>\<open>flask.request.endpoint or 'unknown'\<close>: \<^verbatim>\<open>None\<close> and the empty string are both falsy.\<close>

definition endpoint_label :: "request \<Rightarrow> string" where
  "endpoint_label req =
     (case endpoint req of
        None \<Rightarrow> ''unknown''
      | Some e \<Rightarrow> if e = [] then ''unknown'' else e)"

text \<open>
  \<^verbatim>\<open>after_request(response)\<close>, given the context, the request and the second reading of
  \<^verbatim>\<open>time.time()\<close>.
\<close>

definition after_request :: "registry \<Rightarrow> g \<Rightarrow> request \<Rightarrow> real \<Rightarrow> response \<Rightarrow> registry \<times> response" where
  "after_request st ctx req now resp =
     (let request_duration = now - start_time ctx;
          st1 = st\<lparr>REQUEST_COUNT :=
                    inc (REQUEST_COUNT st) (request_method req, endpoint_label req, status_code resp)\<rparr>;
          st2 = st1\<lparr>REQUEST_LATENCY :=
                    observe (REQUEST_LATENCY st1) (endpoint_label req) request_duration\<rparr>
      in (st2, resp))"

subsection \<open>The framework's dispatch\<close>

text \<open>
  A view function updates the instruments and either returns a response or raises.
  The dispatcher itself belongs to the web framework, not to the application; what is
  written here is its contract as the application relies on it: the before-request hook
  runs, then the view; an exception that leaves the view is turned into a response with
  status 500; the after-request hook runs on whatever response results.
\<close>

type_synonym view = "registry \<Rightarrow> registry \<times> (exception + response)"

definition internal_server_error :: response where
  "internal_server_error =
     \<lparr>status_code = 500, mimetype = TextHtml, body = Text ''Internal Server Error''\<rparr>"

definition handle_request :: "registry \<Rightarrow> request \<Rightarrow> real \<Rightarrow> view \<Rightarrow> real \<Rightarrow> registry \<times> response" where
  "handle_request st req t_start v t_end =
     (let ctx = before_request t_start;
          (st1, rv) = v st;
          resp = (case rv of Inl e \<Rightarrow> internal_server_error | Inr r \<Rightarrow> r)
      in after_request st1 ctx req t_end resp)"

subsection \<open>What the views read from outside\<close>

text \<open>
  \<^verbatim>\<open>random.random()\<close>, \<^verbatim>\<open>random.uniform(a, b)\<close>, \<^verbatim>\<open>random.randint(a, b)\<close>,
  \<^verbatim>\<open>psutil.cpu_percent(interval=i)\<close>, \<^verbatim>\<open>psutil.virtual_memory().percent\<close>,
  \<^verbatim>\<open>time.localtime().tm_hour\<close> and \<^verbatim>\<open>generate_latest()\<close> are library calls. The two
  host-statistics calls and the serialiser may raise.
\<close>

record env =
  random_random :: real
  random_uniform :: "real \<Rightarrow> real \<Rightarrow> real"
  random_randint :: "int \<Rightarrow> int \<Rightarrow> int"
  cpu_percent :: "real \<Rightarrow> exception + real"
  virtual_memory_percent :: "exception + real"
  tm_hour :: int
  generate_latest :: "registry \<Rightarrow> exception + string"

text \<open>The range contracts of the two bounded draws, for the call at hand.\<close>

definition randint_in_range :: "env \<Rightarrow> int \<Rightarrow> int \<Rightarrow> bool" where
  "randint_in_range e a b \<longleftrightarrow> a \<le> random_randint e a b \<and> random_randint e a b \<le> b"

definition uniform_in_range :: "env \<Rightarrow> real \<Rightarrow> real \<Rightarrow> bool" where
  "uniform_in_range e a b \<longleftrightarrow> a \<le> random_uniform e a b \<and> random_uniform e a b \<le> b"

subsection \<open>Dictionaries\<close>

fun dict_get :: "dict \<Rightarrow> string \<Rightarrow> json option" where
  "dict_get [] k = None"
| "dict_get ((k', v) # d) k = (if k' = k then Some v else dict_get d k)"

text \<open>\<^verbatim>\<open>d[k] = v\<close>: an existing key keeps its place, a new key goes last.\<close>

fun dict_set :: "dict \<Rightarrow> string \<Rightarrow> json \<Rightarrow> dict" where
  "dict_set [] k v = [(k, v)]"
| "dict_set ((k', v') # d) k v = (if k' = k then (k, v) # d else (k', v') # dict_set d k v)"

text \<open>
  \<^verbatim>\<open>d[k].append(x)\<close>: a missing key raises \<^verbatim>\<open>KeyError\<close>, a value that is not a list
  raises \<^verbatim>\<open>AttributeError\<close>.
\<close>

definition dict_append :: "dict \<Rightarrow> string \<Rightarrow> json \<Rightarrow> exception + dict" where
  "dict_append d k x =
     (case dict_get d k of
        None \<Rightarrow> Inl (Exception k)
      | Some (JArray xs) \<Rightarrow> Inr (dict_set d k (JArray (xs @ [x])))
      | Some _ \<Rightarrow> Inl (Exception ''object has no attribute append''))"

subsection \<open>The health view\<close>

text \<open>The body of the \<^verbatim>\<open>try\<close> block once both readings are in.\<close>

definition health_data :: "real \<Rightarrow> real \<Rightarrow> real \<Rightarrow> exception + dict" where
  "health_data now cpu mem =
     (let d0 = [(''status'', JString ''healthy''),
                (''timestamp'', JFloat now),
                (''system'', JObject [(''cpu_percent'', JFloat cpu),
                                      (''memory_percent'', JFloat mem)])]
      in if cpu > 90 \<or> mem > 90 then
           (let d1 = dict_set d0 ''status'' (JString ''degraded'');
                d2 = dict_set d1 ''warnings'' (JArray [])
            in case (if cpu > 90 then dict_append d2 ''warnings'' (JString ''High CPU usage'')
                     else Inr d2) of
                 Inl e \<Rightarrow> Inl e
               | Inr d3 \<Rightarrow>
                   (if mem > 90 then dict_append d3 ''warnings'' (JString ''High memory usage'')
                    else Inr d3))
         else Inr d0)"

text \<open>The \<^verbatim>\<open>except Exception as e\<close> branch.\<close>

definition health_except :: "registry \<Rightarrow> exception \<Rightarrow> registry \<times> response" where
  "health_except st e =
     (st\<lparr>ERROR_COUNT := inc (ERROR_COUNT st) ''health_check''\<rparr>,
      with_status (jsonify [(''status'', JString ''unhealthy''), (''error'', JString (str e))]) 500)"

definition health :: "registry \<Rightarrow> env \<Rightarrow> real \<Rightarrow> registry \<times> response" where
  "health st e now =
     (case cpu_percent e 1 of
        Inl ex \<Rightarrow> health_except st ex
      | Inr cpu \<Rightarrow>
          (case virtual_memory_percent e of
             Inl ex \<Rightarrow> health_except st ex
           | Inr mem \<Rightarrow>
               (case health_data now cpu mem of
                  Inl ex \<Rightarrow> health_except st ex
                | Inr d \<Rightarrow> (st, jsonify d))))"

subsection \<open>The load-simulation view\<close>

text \<open>
  The view reads the clock once for \<^verbatim>\<open>start_time\<close>, once per test of the loop condition and
  once for the timestamp of the response. The clock is the list of readings still to come;
  the result is \<open>None\<close> when the list ends before the view is done with it.

  \<open>spin\<close> is the \<^verbatim>\<open>while time.time() - start_time < duration\<close> loop: it returns the reading
  at which the condition first failed, and the readings after it.
\<close>

fun spin :: "real list \<Rightarrow> real \<Rightarrow> real \<Rightarrow> (real \<times> real list) option" where
  "spin [] start duration = None"
| "spin (t # ts) start duration =
     (if t - start < duration then spin ts start duration else Some (t, ts))"

text \<open>\<^verbatim>\<open>f'{x:.2f}'\<close>: the nearest number with two decimals, ties to even, in decimal digits.\<close>

definition digit :: "nat \<Rightarrow> char" where
  "digit d = ''0123456789'' ! d"

fun digits :: "nat \<Rightarrow> string" where
  "digits n = (if n < 10 then [digit n] else digits (n div 10) @ [digit (n mod 10)])"

declare digits.simps [simp del]

definition round_half_even :: "real \<Rightarrow> int" where
  "round_half_even x =
     (let f = \<lfloor>x\<rfloor>; r = x - of_int f
      in if r < 1 / 2 then f else if 1 / 2 < r then f + 1 else if even f then f else f + 1)"

definition format_2f :: "real \<Rightarrow> string" where
  "format_2f x =
     (let n = nat (round_half_even (\<bar>x\<bar> * 100))
      in (if x < 0 then ''-'' else []) @ digits (n div 100) @ ''.''
         @ [digit (n mod 100 div 10), digit (n mod 10)])"

text \<open>
  The statements of the \<^verbatim>\<open>try\<close> block are the two draws, the clock, \<^verbatim>\<open>Gauge.set\<close> and
  \<^verbatim>\<open>jsonify\<close>; none of them is an input that can fail here, so the \<^verbatim>\<open>except\<close> branch
  (which would count \<^verbatim>\<open>load_simulation\<close>) has no trigger in this model.
\<close>

definition simulate_load :: "registry \<Rightarrow> env \<Rightarrow> real list \<Rightarrow> (registry \<times> response) option" where
  "simulate_load st e clock =
     (let duration = random_uniform e 0.5 3.0
      in case clock of
           [] \<Rightarrow> None
         | start # clock1 \<Rightarrow>
             (case spin clock1 start duration of
                None \<Rightarrow> None
              | Some (t_exit, clock2) \<Rightarrow>
                  (let st1 = st\<lparr>ACTIVE_USERS := of_int (random_randint e 20 100)\<rparr>
                   in case clock2 of
                        [] \<Rightarrow> None
                      | now # clock3 \<Rightarrow>
                          Some (st1, jsonify [(''message'', JString ''Load simulation completed''),
                                              (''duration'', JString (format_2f duration @ ''s'')),
                                              (''timestamp'', JFloat now)]))))"

subsection \<open>The error-simulation view\<close>

definition simulate_error :: "registry \<Rightarrow> env \<Rightarrow> registry \<times> response" where
  "simulate_error st e =
     (let error_chance = random_random e
      in if error_chance < 0.2 then
           (st\<lparr>ERROR_COUNT := inc (ERROR_COUNT st) ''server_error''\<rparr>,
            with_status (jsonify [(''error'', JString ''Internal server error'')]) 500)
         else if error_chance < 0.3 then
           (st\<lparr>ERROR_COUNT := inc (ERROR_COUNT st) ''client_error''\<rparr>,
            with_status (jsonify [(''error'', JString ''Bad request'')]) 400)
         else
           (st, jsonify [(''message'', JString ''Success response''),
                         (''value'', JInt (random_randint e 1 100))]))"

subsection \<open>The user-activity view\<close>

definition user_activity :: "registry \<Rightarrow> env \<Rightarrow> real \<Rightarrow> registry \<times> response" where
  "user_activity st e now =
     (let hour = tm_hour e;
          users = (if 9 \<le> hour \<and> hour \<le> 17 then random_randint e 30 80
                   else random_randint e 5 25)
      in (st\<lparr>ACTIVE_USERS := of_int users\<rparr>,
          jsonify [(''active_users'', JInt users),
                   (''hour'', JInt hour),
                   (''timestamp'', JFloat now)]))"

subsection \<open>The exposition view\<close>

definition metrics_except :: "registry \<Rightarrow> registry \<times> response" where
  "metrics_except st =
     (st\<lparr>ERROR_COUNT := inc (ERROR_COUNT st) ''metrics_error''\<rparr>,
      \<lparr>status_code = 500, mimetype = ContentTypeLatest,
       body = Text (''# Metrics unavailable'' @ [CHR 0x0A])\<rparr>)"

text \<open>
  Each \<^verbatim>\<open>Gauge.set\<close> takes effect when it runs: a failure of the second reading or of the
  serialiser leaves the gauges already written in place.
\<close>

definition metrics :: "registry \<Rightarrow> env \<Rightarrow> registry \<times> response" where
  "metrics st e =
     (case cpu_percent e 0.1 of
        Inl ex \<Rightarrow> metrics_except st
      | Inr cpu \<Rightarrow>
          (let st1 = st\<lparr>SYSTEM_CPU := cpu\<rparr>
           in case virtual_memory_percent e of
                Inl ex \<Rightarrow> metrics_except st1
              | Inr mem \<Rightarrow>
                  (let st2 = st1\<lparr>SYSTEM_MEMORY := mem\<rparr>
                   in case generate_latest e st2 of
                        Inl ex \<Rightarrow> metrics_except st2
                      | Inr text \<Rightarrow>
                          (st2, \<lparr>status_code = 200, mimetype = ContentTypeLatest,
                                 body = Text text\<rparr>))))"

subsection \<open>Sample inputs\<close>

text \<open>Concrete requests, a view that raises, and an environment, used to run the model.\<close>

definition example_request :: request where
  "example_request = \<lparr>request_method = ''GET'', endpoint = Some ''user_activity''\<rparr>"

definition unmatched_request :: request where
  "unmatched_request = \<lparr>request_method = ''GET'', endpoint = None\<rparr>"

definition raising_view :: view where
  "raising_view st = (st, Inl (Exception ''boom''))"

definition example_env :: env where
  "example_env =
     \<lparr>random_random = 0.5, random_uniform = (\<lambda>a b. 1), random_randint = (\<lambda>a b. a),
      cpu_percent = (\<lambda>i. Inr 95), virtual_memory_percent = Inr 50, tm_hour = 10,
      generate_latest = (\<lambda>st. Inr ''# registry'')\<rparr>"

section \<open>Properties\<close>

subsection \<open>Auxiliary facts\<close>

lemma format_2f_1: "format_2f 1 = ''1.00''"
  by code_simp

lemma format_2f_15: "format_2f (3 / 2) = ''1.50''"
  by code_simp

lemma spin_append:
  "\<forall>t\<in>set spun. t - start < d \<Longrightarrow> \<not> t_exit - start < d \<Longrightarrow>
   spin (spun @ t_exit # rest) start d = Some (t_exit, rest)"
  by (induction spun) auto

subsection \<open>The hooks around a view that raises\<close>

text \<open>
  C1, as stated, fails: a view raises without touching the instruments; the request is
  finished with status 500 and counted once, but no series of the error Counter has changed.
\<close>

theorem fault_error_counter_counterexample:
  "status_code (snd (handle_request empty_registry example_request 10 raising_view 11)) = 500 \<and>
   counter_value (REQUEST_COUNT (fst (handle_request empty_registry example_request 10 raising_view 11)))
     (''GET'', ''user_activity'', 500) = 1 \<and>
   ERROR_COUNT (fst (handle_request empty_registry example_request 10 raising_view 11))
     = ERROR_COUNT empty_registry"
  by (simp add: handle_request_def after_request_def before_request_def raising_view_def
      internal_server_error_def example_request_def endpoint_label_def empty_registry_def
      inc_def observe_def counter_value_def Let_def)

text \<open>
  C1, amended: when the view raises, the response has status 500, the request-count series
  (method, endpoint, 500) is incremented by exactly one and no other series of it changes, one
  latency observation is added, and the hooks leave the error Counter as the view left it.
\<close>

theorem fault_completes_once:
  assumes "v st = (st1, Inl ex)"
  shows "status_code (snd (handle_request st req t_start v t_end)) = 500 \<and>
         REQUEST_COUNT (fst (handle_request st req t_start v t_end))
           = (REQUEST_COUNT st1)((request_method req, endpoint_label req, 500) \<mapsto>
                counter_value (REQUEST_COUNT st1) (request_method req, endpoint_label req, 500) + 1) \<and>
         REQUEST_LATENCY (fst (handle_request st req t_start v t_end))
           = (REQUEST_LATENCY st1)(endpoint_label req \<mapsto>
                observations (REQUEST_LATENCY st1) (endpoint_label req) @ [t_end - t_start]) \<and>
         ERROR_COUNT (fst (handle_request st req t_start v t_end)) = ERROR_COUNT st1"
  using assms
  by (simp add: handle_request_def after_request_def before_request_def
      internal_server_error_def inc_def observe_def Let_def)

text \<open>
  C1, amended, at the raising view on an empty registry.
\<close>

theorem fault_completes_once_witness:
  "raising_view empty_registry = (empty_registry, Inl (Exception ''boom'')) \<and>
   status_code (snd (handle_request empty_registry example_request 10 raising_view 11)) = 500 \<and>
   REQUEST_COUNT (fst (handle_request empty_registry example_request 10 raising_view 11))
     (''GET'', ''user_activity'', 500) = Some 1 \<and>
   REQUEST_LATENCY (fst (handle_request empty_registry example_request 10 raising_view 11))
     ''user_activity'' = Some [1] \<and>
   ERROR_COUNT (fst (handle_request empty_registry example_request 10 raising_view 11))
     ''server_error'' = None"
  using fault_completes_once [of raising_view empty_registry empty_registry "Exception ''boom''"
      example_request 10 11]
  by (simp add: raising_view_def example_request_def endpoint_label_def empty_registry_def
      counter_value_def observations_def)

subsection \<open>Error simulation\<close>

text \<open>
  C2: with \<open>u\<close> the draw of \<^verbatim>\<open>random.random()\<close>: if \<open>u < 0.2\<close> the status is 500 and the
  series \<^verbatim>\<open>server_error\<close> is incremented by one; else if \<open>u < 0.3\<close> the status is 400 and the
  series \<^verbatim>\<open>client_error\<close> is incremented by one; else the response is a success (200) carrying
  the draw of \<^verbatim>\<open>random.randint(1, 100)\<close>, which lies in [1, 100] when the generator keeps its range.
\<close>

theorem simulate_error_branches:
  "(random_random e < 0.2 \<longrightarrow>
      status_code (snd (simulate_error st e)) = 500 \<and>
      ERROR_COUNT (fst (simulate_error st e))
        = (ERROR_COUNT st)(''server_error'' \<mapsto> counter_value (ERROR_COUNT st) ''server_error'' + 1)) \<and>
   (\<not> random_random e < 0.2 \<and> random_random e < 0.3 \<longrightarrow>
      status_code (snd (simulate_error st e)) = 400 \<and>
      ERROR_COUNT (fst (simulate_error st e))
        = (ERROR_COUNT st)(''client_error'' \<mapsto> counter_value (ERROR_COUNT st) ''client_error'' + 1)) \<and>
   (\<not> random_random e < 0.3 \<and> randint_in_range e 1 100 \<longrightarrow>
      snd (simulate_error st e)
        = jsonify [(''message'', JString ''Success response''),
                   (''value'', JInt (random_randint e 1 100))] \<and>
      status_code (snd (simulate_error st e)) = 200 \<and>
      1 \<le> random_randint e 1 100 \<and> random_randint e 1 100 \<le> 100)"
  by (simp add: simulate_error_def with_status_def jsonify_def inc_def randint_in_range_def Let_def)

text \<open>
  C2 at the draws 0.1, 0.25 and 0.5.
\<close>

theorem simulate_error_branches_witness:
  "random_random (example_env\<lparr>random_random := 0.1\<rparr>) < 0.2 \<and>
   status_code (snd (simulate_error empty_registry (example_env\<lparr>random_random := 0.1\<rparr>))) = 500 \<and>
   ERROR_COUNT (fst (simulate_error empty_registry (example_env\<lparr>random_random := 0.1\<rparr>)))
     ''server_error'' = Some 1 \<and>
   \<not> random_random (example_env\<lparr>random_random := 0.25\<rparr>) < 0.2 \<and>
   random_random (example_env\<lparr>random_random := 0.25\<rparr>) < 0.3 \<and>
   status_code (snd (simulate_error empty_registry (example_env\<lparr>random_random := 0.25\<rparr>))) = 400 \<and>
   ERROR_COUNT (fst (simulate_error empty_registry (example_env\<lparr>random_random := 0.25\<rparr>)))
     ''client_error'' = Some 1 \<and>
   \<not> random_random example_env < 0.3 \<and> randint_in_range example_env 1 100 \<and>
   snd (simulate_error empty_registry example_env)
     = jsonify [(''message'', JString ''Success response''), (''value'', JInt 1)]"
  using simulate_error_branches [of "example_env\<lparr>random_random := 0.1\<rparr>" empty_registry]
    simulate_error_branches [of "example_env\<lparr>random_random := 0.25\<rparr>" empty_registry]
    simulate_error_branches [of example_env empty_registry]
  by (simp add: example_env_def empty_registry_def counter_value_def randint_in_range_def)

subsection \<open>Health check\<close>

text \<open>
  C3: when both readings succeed, the response is a 200 whose status is \<^verbatim>\<open>degraded\<close> if
  cpu > 90 or mem > 90 and \<^verbatim>\<open>healthy\<close> otherwise; a healthy response has no warnings entry, a
  degraded one lists \<^verbatim>\<open>High CPU usage\<close> iff cpu > 90 and \<^verbatim>\<open>High memory usage\<close> iff mem > 90, in
  that order; no instrument changes.
\<close>

theorem health_status_and_warnings:
  assumes "cpu_percent e 1 = Inr cpu" and "virtual_memory_percent e = Inr mem"
  shows "health st e now =
           (st, jsonify ([(''status'', JString (if cpu > 90 \<or> mem > 90 then ''degraded'' else ''healthy'')),
                          (''timestamp'', JFloat now),
                          (''system'', JObject [(''cpu_percent'', JFloat cpu),
                                                (''memory_percent'', JFloat mem)])]
                         @ (if cpu > 90 \<or> mem > 90
                            then [(''warnings'',
                                   JArray ((if cpu > 90 then [JString ''High CPU usage''] else [])
                                           @ (if mem > 90 then [JString ''High memory usage''] else [])))]
                            else [])))"
  using assms by (simp add: health_def health_data_def dict_append_def Let_def)

text \<open>
  C3 at cpu = 95, mem = 50 (exactly one warning) and at cpu = 50, mem = 50 (healthy).
\<close>

theorem health_status_and_warnings_witness:
  "cpu_percent example_env 1 = Inr 95 \<and> virtual_memory_percent example_env = Inr 50 \<and>
   health empty_registry example_env 7 =
     (empty_registry,
      jsonify [(''status'', JString ''degraded''), (''timestamp'', JFloat 7),
               (''system'', JObject [(''cpu_percent'', JFloat 95), (''memory_percent'', JFloat 50)]),
               (''warnings'', JArray [JString ''High CPU usage''])]) \<and>
   cpu_percent (example_env\<lparr>cpu_percent := (\<lambda>i. Inr 50)\<rparr>) 1 = Inr 50 \<and>
   health empty_registry (example_env\<lparr>cpu_percent := (\<lambda>i. Inr 50)\<rparr>) 7 =
     (empty_registry,
      jsonify [(''status'', JString ''healthy''), (''timestamp'', JFloat 7),
               (''system'', JObject [(''cpu_percent'', JFloat 50), (''memory_percent'', JFloat 50)])])"
  using health_status_and_warnings [of example_env 95 50 empty_registry 7]
    health_status_and_warnings [of "example_env\<lparr>cpu_percent := (\<lambda>i. Inr 50)\<rparr>" 50 50 empty_registry 7]
  by (simp add: example_env_def)

text \<open>
  C4: when the CPU reading raises, or it succeeds and the memory reading raises, the response
  is a 500 with status \<^verbatim>\<open>unhealthy\<close> and the message of the exception, the series
  \<^verbatim>\<open>health_check\<close> of the error Counter is incremented by one, and nothing else in the registry
  changes.
\<close>

theorem health_stat_failure:
  assumes "cpu_percent e 1 = Inl ex \<or>
           (\<exists>cpu. cpu_percent e 1 = Inr cpu \<and> virtual_memory_percent e = Inl ex)"
  shows "health st e now =
           (st\<lparr>ERROR_COUNT := (ERROR_COUNT st)(''health_check'' \<mapsto>
                  counter_value (ERROR_COUNT st) ''health_check'' + 1)\<rparr>,
            \<lparr>status_code = 500, mimetype = ApplicationJson,
             body = Json [(''status'', JString ''unhealthy''), (''error'', JString (str ex))]\<rparr>)"
  using assms
  by (auto simp add: health_def health_except_def with_status_def jsonify_def inc_def)

text \<open>
  C4 at a failing CPU reading and at a failing memory reading.
\<close>

theorem health_stat_failure_witness:
  "cpu_percent (example_env\<lparr>cpu_percent := (\<lambda>i. Inl (Exception ''no cpu''))\<rparr>) 1
     = Inl (Exception ''no cpu'') \<and>
   snd (health empty_registry (example_env\<lparr>cpu_percent := (\<lambda>i. Inl (Exception ''no cpu''))\<rparr>) 7)
     = \<lparr>status_code = 500, mimetype = ApplicationJson,
        body = Json [(''status'', JString ''unhealthy''), (''error'', JString ''no cpu'')]\<rparr> \<and>
   ERROR_COUNT (fst (health empty_registry
       (example_env\<lparr>cpu_percent := (\<lambda>i. Inl (Exception ''no cpu''))\<rparr>) 7)) ''health_check'' = Some 1 \<and>
   cpu_percent (example_env\<lparr>virtual_memory_percent := Inl (Exception ''no mem'')\<rparr>) 1 = Inr 95 \<and>
   virtual_memory_percent (example_env\<lparr>virtual_memory_percent := Inl (Exception ''no mem'')\<rparr>)
     = Inl (Exception ''no mem'') \<and>
   snd (health empty_registry (example_env\<lparr>virtual_memory_percent := Inl (Exception ''no mem'')\<rparr>) 7)
     = \<lparr>status_code = 500, mimetype = ApplicationJson,
        body = Json [(''status'', JString ''unhealthy''), (''error'', JString ''no mem'')]\<rparr>"
  using health_stat_failure [of "example_env\<lparr>cpu_percent := (\<lambda>i. Inl (Exception ''no cpu''))\<rparr>"
      "Exception ''no cpu''" empty_registry 7]
    health_stat_failure [of "example_env\<lparr>virtual_memory_percent := Inl (Exception ''no mem'')\<rparr>"
      "Exception ''no mem''" empty_registry 7]
  by (simp add: example_env_def empty_registry_def counter_value_def)

subsection \<open>Load simulation\<close>

text \<open>
  C5, as stated, fails: the drawn duration is 1 and the clock reads 0, 0.7, 1.5, 1.6. The loop
  leaves at the reading 1.5, so 1.5 seconds have elapsed, and the response reports \<^verbatim>\<open>1.00s\<close>.
\<close>

theorem load_reports_elapsed_counterexample:
  "random_uniform example_env 0.5 3.0 = 1 \<and>
   spin [0.7, 1.5, 1.6] 0 1 = Some (1.5, [1.6]) \<and>
   simulate_load empty_registry example_env [0, 0.7, 1.5, 1.6]
     = Some (empty_registry\<lparr>ACTIVE_USERS := 20\<rparr>,
             jsonify [(''message'', JString ''Load simulation completed''),
                      (''duration'', JString ''1.00s''),
                      (''timestamp'', JFloat 1.6)]) \<and>
   format_2f (1.5 - 0) @ ''s'' = ''1.50s''"
  by (simp add: simulate_load_def example_env_def format_2f_1 format_2f_15)

text \<open>
  C5, amended: let \<open>d\<close> be the draw of \<^verbatim>\<open>random.uniform(0.5, 3.0)\<close>. If the clock reads \<open>start\<close>,
  then readings less than \<open>d\<close> after \<open>start\<close>, then a reading \<open>t_exit\<close> at least \<open>d\<close> after
  \<open>start\<close>, then one more, the view returns: the loop has run up to \<open>t_exit\<close>, the active-users
  Gauge holds the draw of \<^verbatim>\<open>random.randint(20, 100)\<close>, and the response reports the drawn duration
  \<open>d\<close> with two decimals. Both draws are in their ranges when the generator keeps them.
\<close>

theorem load_reports_drawn_duration:
  assumes "\<forall>t\<in>set spun. t - start < random_uniform e 0.5 3.0"
    and "random_uniform e 0.5 3.0 \<le> t_exit - start"
    and "uniform_in_range e 0.5 3.0" and "randint_in_range e 20 100"
  shows "simulate_load st e (start # spun @ t_exit # now # rest)
           = Some (st\<lparr>ACTIVE_USERS := of_int (random_randint e 20 100)\<rparr>,
                   jsonify [(''message'', JString ''Load simulation completed''),
                            (''duration'', JString (format_2f (random_uniform e 0.5 3.0) @ ''s'')),
                            (''timestamp'', JFloat now)]) \<and>
         0.5 \<le> random_uniform e 0.5 3.0 \<and> random_uniform e 0.5 3.0 \<le> 3.0 \<and>
         20 \<le> random_randint e 20 100 \<and> random_randint e 20 100 \<le> 100"
proof -
  have "spin (spun @ t_exit # now # rest) start (random_uniform e 0.5 3.0)
          = Some (t_exit, now # rest)"
    using assms(1,2) by (intro spin_append) auto
  then show ?thesis
    using assms(3,4)
    by (simp add: simulate_load_def uniform_in_range_def randint_in_range_def)
qed

text \<open>
  C5, amended, at the clock 0, 0.7, 1.5, 1.6 and the drawn duration 1.
\<close>

theorem load_reports_drawn_duration_witness:
  "0.7 - 0 < random_uniform example_env 0.5 3.0 \<and>
   random_uniform example_env 0.5 3.0 \<le> 1.5 - 0 \<and>
   uniform_in_range example_env 0.5 3.0 \<and> randint_in_range example_env 20 100 \<and>
   simulate_load empty_registry example_env (0 # [0.7] @ 1.5 # 1.6 # [])
     = Some (empty_registry\<lparr>ACTIVE_USERS := 20\<rparr>,
             jsonify [(''message'', JString ''Load simulation completed''),
                      (''duration'', JString (format_2f 1 @ ''s'')),
                      (''timestamp'', JFloat 1.6)])"
  using load_reports_drawn_duration [of "[0.7]" 0 example_env "1.5" empty_registry "1.6" "[]"]
  by (simp add: example_env_def uniform_in_range_def randint_in_range_def)

subsection \<open>User activity\<close>

text \<open>
  C6: with \<open>h\<close> the local hour, the users value is the draw of \<^verbatim>\<open>random.randint(30, 80)\<close> if
  \<open>9 \<le> h \<le> 17\<close> and of \<^verbatim>\<open>random.randint(5, 25)\<close> otherwise, hence within that range; the
  active-users Gauge is set to it, and the response carries the users value and the hour.
\<close>

theorem user_activity_by_hour:
  fixes e :: env
  defines "users \<equiv> (if 9 \<le> tm_hour e \<and> tm_hour e \<le> 17 then random_randint e 30 80
                     else random_randint e 5 25)"
  assumes "randint_in_range e 30 80" and "randint_in_range e 5 25"
  shows "user_activity st e now
           = (st\<lparr>ACTIVE_USERS := of_int users\<rparr>,
              jsonify [(''active_users'', JInt users), (''hour'', JInt (tm_hour e)),
                       (''timestamp'', JFloat now)]) \<and>
         (if 9 \<le> tm_hour e \<and> tm_hour e \<le> 17 then 30 \<le> users \<and> users \<le> 80
          else 5 \<le> users \<and> users \<le> 25)"
  using assms by (simp add: user_activity_def randint_in_range_def Let_def)

text \<open>
  C6 at the hours 10 and 18.
\<close>

theorem user_activity_by_hour_witness:
  "randint_in_range example_env 30 80 \<and> randint_in_range example_env 5 25 \<and>
   user_activity empty_registry example_env 3
     = (empty_registry\<lparr>ACTIVE_USERS := 30\<rparr>,
        jsonify [(''active_users'', JInt 30), (''hour'', JInt 10), (''timestamp'', JFloat 3)]) \<and>
   user_activity empty_registry (example_env\<lparr>tm_hour := 18\<rparr>) 3
     = (empty_registry\<lparr>ACTIVE_USERS := 5\<rparr>,
        jsonify [(''active_users'', JInt 5), (''hour'', JInt 18), (''timestamp'', JFloat 3)])"
  using user_activity_by_hour [of example_env empty_registry 3]
    user_activity_by_hour [of "example_env\<lparr>tm_hour := 18\<rparr>" empty_registry 3]
  by (simp add: example_env_def randint_in_range_def)

subsection \<open>Exposition\<close>

text \<open>
  C7: when both readings and the serialiser succeed, the two system Gauges are set to the
  readings and the response is the serialisation of the registry so updated; when a reading or
  the serialiser raises, the series \<^verbatim>\<open>metrics_error\<close> of the error Counter is incremented by one
  and the response is the fallback body with status 500.
\<close>

theorem metrics_paths:
  "(\<forall>cpu mem text.
      cpu_percent e 0.1 = Inr cpu \<and> virtual_memory_percent e = Inr mem \<and>
      generate_latest e (st\<lparr>SYSTEM_CPU := cpu, SYSTEM_MEMORY := mem\<rparr>) = Inr text \<longrightarrow>
      metrics st e = (st\<lparr>SYSTEM_CPU := cpu, SYSTEM_MEMORY := mem\<rparr>,
                      \<lparr>status_code = 200, mimetype = ContentTypeLatest, body = Text text\<rparr>)) \<and>
   (isl (cpu_percent e 0.1) \<or> isl (virtual_memory_percent e) \<or>
    (\<exists>cpu mem. cpu_percent e 0.1 = Inr cpu \<and> virtual_memory_percent e = Inr mem \<and>
       isl (generate_latest e (st\<lparr>SYSTEM_CPU := cpu, SYSTEM_MEMORY := mem\<rparr>))) \<longrightarrow>
      snd (metrics st e)
        = \<lparr>status_code = 500, mimetype = ContentTypeLatest,
           body = Text (''# Metrics unavailable'' @ [CHR 0x0A])\<rparr> \<and>
      ERROR_COUNT (fst (metrics st e))
        = (ERROR_COUNT st)(''metrics_error'' \<mapsto> counter_value (ERROR_COUNT st) ''metrics_error'' + 1))"
  by (auto simp add: metrics_def metrics_except_def inc_def Let_def isl_def split: sum.splits)

text \<open>
  C7 at a run where everything succeeds and at one where the memory reading raises.
\<close>

theorem metrics_paths_witness:
  "cpu_percent example_env 0.1 = Inr 95 \<and> virtual_memory_percent example_env = Inr 50 \<and>
   generate_latest example_env (empty_registry\<lparr>SYSTEM_CPU := 95, SYSTEM_MEMORY := 50\<rparr>)
     = Inr ''# registry'' \<and>
   metrics empty_registry example_env
     = (empty_registry\<lparr>SYSTEM_CPU := 95, SYSTEM_MEMORY := 50\<rparr>,
        \<lparr>status_code = 200, mimetype = ContentTypeLatest, body = Text ''# registry''\<rparr>) \<and>
   isl (virtual_memory_percent (example_env\<lparr>virtual_memory_percent := Inl (Exception ''no mem'')\<rparr>)) \<and>
   status_code (snd (metrics empty_registry
      (example_env\<lparr>virtual_memory_percent := Inl (Exception ''no mem'')\<rparr>))) = 500 \<and>
   ERROR_COUNT (fst (metrics empty_registry
      (example_env\<lparr>virtual_memory_percent := Inl (Exception ''no mem'')\<rparr>))) ''metrics_error'' = Some 1"
  using metrics_paths [of example_env empty_registry]
    metrics_paths [of "example_env\<lparr>virtual_memory_percent := Inl (Exception ''no mem'')\<rparr>" empty_registry]
  by (simp add: example_env_def empty_registry_def counter_value_def)

subsection \<open>The recorded latency\<close>

text \<open>
  C8, as stated, fails: both readings come from \<^verbatim>\<open>time.time()\<close>, the wall clock. With the clock
  at 10 before the request and at 5 after it, the observation recorded is -5.
\<close>

theorem latency_negative_counterexample:
  "observations (REQUEST_LATENCY (fst (after_request empty_registry (before_request 10)
      example_request 5 (jsonify [])))) ''user_activity'' = [- 5] \<and> \<not> (0::real) \<le> - 5"
  by (simp add: after_request_def before_request_def example_request_def endpoint_label_def
      empty_registry_def inc_def observe_def observations_def Let_def)

text \<open>
  C8, amended: for every request, the observation recorded is the second reading of the wall
  clock minus the first; it is non-negative when the second reading is not earlier than the
  first, and negative when the clock was set back in between.
\<close>

theorem latency_is_clock_difference:
  "observations (REQUEST_LATENCY (fst (after_request st (before_request t_start) req t_end resp)))
     (endpoint_label req)
   = observations (REQUEST_LATENCY st) (endpoint_label req) @ [t_end - t_start] \<and>
   (t_start \<le> t_end \<longrightarrow>
      0 \<le> last (observations (REQUEST_LATENCY
                 (fst (after_request st (before_request t_start) req t_end resp)))
               (endpoint_label req))) \<and>
   (t_end < t_start \<longrightarrow>
      last (observations (REQUEST_LATENCY
              (fst (after_request st (before_request t_start) req t_end resp)))
            (endpoint_label req)) < 0)"
  by (simp add: after_request_def before_request_def observe_def observations_def Let_def)

text \<open>
  C8, amended, at the readings 10 then 12 (the observation is 2) and 10 then 7 (the
  observation is -3).
\<close>

theorem latency_is_clock_difference_witness:
  "(10::real) \<le> 12 \<and>
   observations (REQUEST_LATENCY (fst (after_request empty_registry (before_request 10)
      example_request 12 (jsonify [])))) ''user_activity'' = [2] \<and>
   0 \<le> last (observations (REQUEST_LATENCY (fst (after_request empty_registry (before_request 10)
      example_request 12 (jsonify [])))) ''user_activity'') \<and>
   (7::real) < 10 \<and>
   observations (REQUEST_LATENCY (fst (after_request empty_registry (before_request 10)
      example_request 7 (jsonify [])))) ''user_activity'' = [- 3] \<and>
   last (observations (REQUEST_LATENCY (fst (after_request empty_registry (before_request 10)
      example_request 7 (jsonify [])))) ''user_activity'') < 0"
  using latency_is_clock_difference [of empty_registry 10 example_request 12 "jsonify []"]
    latency_is_clock_difference [of empty_registry 10 example_request 7 "jsonify []"]
  by (simp add: example_request_def endpoint_label_def empty_registry_def observations_def)

subsection \<open>Requests that matched no route\<close>

text \<open>
  C9: when the request has no endpoint identifier, the hook increments the request-count
  series (method, \<^verbatim>\<open>unknown\<close>, status) by one, adds the latency observation to the series
  \<^verbatim>\<open>unknown\<close>, and returns the response.
\<close>

theorem unmatched_route_recorded_as_unknown:
  assumes "endpoint req = None"
  shows "REQUEST_COUNT (fst (after_request st ctx req now resp))
           = (REQUEST_COUNT st)((request_method req, ''unknown'', status_code resp) \<mapsto>
                counter_value (REQUEST_COUNT st) (request_method req, ''unknown'', status_code resp) + 1) \<and>
         REQUEST_LATENCY (fst (after_request st ctx req now resp))
           = (REQUEST_LATENCY st)(''unknown'' \<mapsto>
                observations (REQUEST_LATENCY st) ''unknown'' @ [now - start_time ctx]) \<and>
         snd (after_request st ctx req now resp) = resp"
  using assms
  by (simp add: after_request_def endpoint_label_def inc_def observe_def Let_def)

text \<open>
  C9 at a GET that matched no route and was answered with 404.
\<close>

theorem unmatched_route_recorded_as_unknown_witness:
  "endpoint unmatched_request = None \<and>
   REQUEST_COUNT (fst (after_request empty_registry (before_request 10) unmatched_request 12
      (with_status (jsonify []) 404))) (''GET'', ''unknown'', 404) = Some 1 \<and>
   REQUEST_LATENCY (fst (after_request empty_registry (before_request 10) unmatched_request 12
      (with_status (jsonify []) 404))) ''unknown'' = Some [2]"
  using unmatched_route_recorded_as_unknown [of unmatched_request empty_registry
      "before_request 10" 12 "with_status (jsonify []) 404"]
  by (simp add: unmatched_request_def empty_registry_def before_request_def with_status_def
      jsonify_def counter_value_def observations_def)

subsection \<open>The success branch of error simulation\<close>

text \<open>
  C10: when the draw is at least 0.3, the view leaves the whole registry as it was.
\<close>

theorem simulate_error_success_frame:
  assumes "0.3 \<le> random_random e"
  shows "fst (simulate_error st e) = st"
  using assms by (simp add: simulate_error_def Let_def)

text \<open>
  C10 at the draw 0.5.
\<close>

theorem simulate_error_success_frame_witness:
  "0.3 \<le> random_random example_env \<and> fst (simulate_error empty_registry example_env) = empty_registry"
  using simulate_error_success_frame [of example_env empty_registry]
  by (simp add: example_env_def)

end
